theory Spec2Isabelle
  imports Complex_Main
begin

section \<open>BeverageStock: the inventory ledger of beverage\_stock.py\<close>

text \<open>
  The Python keeps every \<open>Produto\<close> as an object that the ledger's list refers to and
  mutates in place, and nothing stops a caller from registering the same object twice.
  The model therefore has an explicit store: an address is a natural number, the store
  maps the addresses of the constructed objects to their fields, and the ledger's list
  \<open>produtos\<close> holds addresses. Python's unbounded \<open>int\<close> is \<open>int\<close>. A Python \<open>str\<close> is
  modelled by its UTF-8 bytes (\<open>string\<close>); the few non-ASCII characters of the messages
  are written byte by byte. The three cost fields are floats that the ledger only stores
  and never computes with; their type is the parameter \<open>'c\<close>.
\<close>

subsection \<open>Data model\<close>

datatype TipoBebida = CERVEJA | REFRIGERANTE

text \<open>The \<open>name\<close> attribute of the enum member, as \<open>__str__\<close> prints it.\<close>

fun TipoBebida_name :: "TipoBebida \<Rightarrow> string" where
  "TipoBebida_name CERVEJA = ''CERVEJA''"
| "TipoBebida_name REFRIGERANTE = ''REFRIGERANTE''"

record 'c Produto =
  nome :: string
  tipo :: TipoBebida
  custo_manutencao :: 'c
  custo_pedido :: 'c
  preco_unitario :: 'c
  quantidade_estoque :: int

type_synonym addr = nat

text \<open>
  The state of the program: the store of \<open>Produto\<close> objects with the next free address,
  the two fields of the one \<open>Estoque\<close> (\<open>self.nome\<close>, here \<open>nome_estoque\<close> after the
  constructor's parameter, and \<open>self.produtos\<close>), and the text printed so far, one entry
  per call of \<open>print\<close>. The field \<open>self.calculadora\<close> holds a stateless object and is
  left out.
\<close>

record 'c estado =
  heap :: "addr \<rightharpoonup> 'c Produto"
  prox :: addr
  nome_estoque :: string
  produtos :: "addr list"
  stdout :: "string list"

text \<open>
  Every exception of the ledger is a \<open>ValueError\<close> with a message: the two it raises
  itself, and the one of the interpreter when an f-string formats too long an int.
\<close>

datatype error = ValueError string

subsection \<open>Formatting\<close>

text \<open>
  \<open>str\<close> of a Python int, as the f-strings of the source call it: decimal digits, with a
  minus sign when negative. CPython refuses the conversion with a \<open>ValueError\<close> when the
  number has more digits than \<open>sys.get_int_max_str_digits()\<close>, 4300 unless the caller
  changed it; the source does not change it.
\<close>

definition max_str_digits :: nat where
  "max_str_digits = 4300"

definition msg_limite :: string where
  "msg_limite = ''Exceeds the limit (4300 digits) for integer string conversion; ''
     @ ''use sys.set_int_max_str_digits() to increase the limit''"

function digitos :: "nat \<Rightarrow> string" where
  "digitos n = (if n < 10 then [''0123456789'' ! n]
                else digitos (n div 10) @ [''0123456789'' ! (n mod 10)])"
  by pat_completeness auto
termination
  by (relation "measure id") auto

declare digitos.simps [simp del]

definition str_int :: "int \<Rightarrow> error + string" where
  "str_int i =
     (if length (digitos (nat \<bar>i\<bar>)) > max_str_digits then Inl (ValueError msg_limite)
      else Inr (if i < 0 then ''-'' @ digitos (nat (- i)) else digitos (nat i)))"

text \<open>
  \<open>Produto.__str__\<close>: name, category and current stock. Formatting the stock is the one
  step of the f-string that can raise.
\<close>

definition Produto_str :: "'c Produto \<Rightarrow> error + string" where
  "Produto_str p =
     (case str_int (quantidade_estoque p) of
        Inl e \<Rightarrow> Inl e
      | Inr txt \<Rightarrow>
          Inr (nome p @ '' ('' @ TipoBebida_name (tipo p) @ '') - Estoque: '' @ txt))"

text \<open>The non-ASCII characters of the messages, in UTF-8.\<close>

definition aspa :: string where
  "aspa = [CHR 0x27]"

definition visto :: string where
  "visto = [CHR 0xE2, CHR 0x9C, CHR 0x93]"

definition aviso :: string where
  "aviso = [CHR 0xE2, CHR 0x9A, CHR 0xA0, CHR 0xEF, CHR 0xB8, CHR 0x8F]"

definition marcador :: string where
  "marcador = [CHR 0xE2, CHR 0x80, CHR 0xA2]"

definition msg_nao_encontrado :: "string \<Rightarrow> string" where
  "msg_nao_encontrado nome_produto =
     ''Produto '' @ aspa @ nome_produto @ aspa @ '' n'' @ [CHR 0xC3, CHR 0xA3] @ ''o encontrado''"

definition linha_igual :: string where
  "linha_igual = replicate 60 (CHR ''='')"

subsection \<open>Constructors\<close>

text \<open>
  \<open>Produto.__init__\<close> allocates a new object, stores the five arguments and sets the
  stock to 0; the model returns the address of the new object.
\<close>

definition Produto_init ::
  "string \<Rightarrow> TipoBebida \<Rightarrow> 'c \<Rightarrow> 'c \<Rightarrow> 'c \<Rightarrow> 'c estado \<Rightarrow> addr \<times> 'c estado" where
  "Produto_init n t cm cp pu s =
     (prox s,
      s\<lparr>heap := (heap s)(prox s \<mapsto>
            \<lparr>nome = n, tipo = t, custo_manutencao = cm, custo_pedido = cp,
             preco_unitario = pu, quantidade_estoque = 0\<rparr>),
        prox := Suc (prox s)\<rparr>)"

text \<open>\<open>Estoque.__init__\<close>, in a program that has constructed no object yet.\<close>

definition Estoque_init :: "string \<Rightarrow> 'c estado" where
  "Estoque_init nm =
     \<lparr>heap = Map.empty, prox = 0, nome_estoque = nm, produtos = [], stdout = []\<rparr>"

subsection \<open>The ledger's operations\<close>

definition print :: "string \<Rightarrow> 'c estado \<Rightarrow> 'c estado" where
  "print txt s = s\<lparr>stdout := stdout s @ [txt]\<rparr>"

text \<open>
  \<open>_buscar_produto\<close>: the loop over \<open>self.produtos\<close> returns the first object whose name
  equals \<open>nome\<close>, or \<open>None\<close>. The model returns the reference together with the fields
  read through it. An address without an object cannot be in the list of a running
  program (\<open>registro_valido\<close> below); the model passes over it.
\<close>

fun buscar_produto ::
  "(addr \<rightharpoonup> 'c Produto) \<Rightarrow> addr list \<Rightarrow> string \<Rightarrow> (addr \<times> 'c Produto) option" where
  "buscar_produto h [] n = None"
| "buscar_produto h (a # as) n =
     (case h a of
        Some p \<Rightarrow> if nome p = n then Some (a, p) else buscar_produto h as n
      | None \<Rightarrow> buscar_produto h as n)"

definition registro_valido :: "'c estado \<Rightarrow> bool" where
  "registro_valido s = list_all (\<lambda>a. heap s a \<noteq> None) (produtos s)"

definition adicionar_produto :: "addr \<Rightarrow> 'c estado \<Rightarrow> 'c estado" where
  "adicionar_produto a s =
     (let s1 = s\<lparr>produtos := produtos s @ [a]\<rparr>
      in case heap s a of
           Some p \<Rightarrow> print (visto @ '' Produto '' @ aspa @ nome p @ aspa @ '' adicionado ao estoque'') s1
         | None \<Rightarrow> s1)"

text \<open>
  The operations that can raise return the outcome (\<open>Inl\<close> the exception, \<open>Inr ()\<close> a
  normal return) together with the state the call leaves behind. In \<open>entrada_estoque\<close>
  and on the successful path of \<open>saida_estoque\<close> the stock is assigned before the
  f-string of the confirmation is evaluated, so a quantity too long to format raises
  after the mutation.
\<close>

definition entrada_estoque :: "string \<Rightarrow> int \<Rightarrow> 'c estado \<Rightarrow> (error + unit) \<times> 'c estado" where
  "entrada_estoque nome_produto quantidade s =
     (case buscar_produto (heap s) (produtos s) nome_produto of
        Some (a, p) \<Rightarrow>
          (let s1 = s\<lparr>heap := (heap s)(a \<mapsto>
                        p\<lparr>quantidade_estoque := quantidade_estoque p + quantidade\<rparr>)\<rparr>
           in case str_int quantidade of
                Inl e \<Rightarrow> (Inl e, s1)
              | Inr txt \<Rightarrow>
                  (Inr (),
                   print (visto @ '' Entrada: +'' @ txt @ '' unidades de '' @ aspa
                            @ nome_produto @ aspa) s1))
      | None \<Rightarrow> (Inl (ValueError (msg_nao_encontrado nome_produto)), s))"

definition saida_estoque :: "string \<Rightarrow> int \<Rightarrow> 'c estado \<Rightarrow> (error + unit) \<times> 'c estado" where
  "saida_estoque nome_produto quantidade s =
     (case buscar_produto (heap s) (produtos s) nome_produto of
        Some (a, p) \<Rightarrow>
          if quantidade_estoque p \<ge> quantidade then
            (let s1 = s\<lparr>heap := (heap s)(a \<mapsto>
                          p\<lparr>quantidade_estoque := quantidade_estoque p - quantidade\<rparr>)\<rparr>
             in case str_int quantidade of
                  Inl e \<Rightarrow> (Inl e, s1)
                | Inr txt \<Rightarrow>
                    (Inr (),
                     print (visto @ '' Sa'' @ [CHR 0xC3, CHR 0xAD] @ ''da: -'' @ txt
                              @ '' unidades de '' @ aspa @ nome_produto @ aspa) s1))
          else
            (case str_int (quantidade_estoque p) of
               Inl e \<Rightarrow> (Inl e, s)
             | Inr txt \<Rightarrow>
                 (Inl (ValueError (''Estoque insuficiente! Dispon'' @ [CHR 0xC3, CHR 0xAD]
                                     @ ''vel: '' @ txt)), s))
      | None \<Rightarrow> (Inl (ValueError (msg_nao_encontrado nome_produto)), s))"

definition verificar_alertas :: "int \<Rightarrow> string \<Rightarrow> 'c estado \<Rightarrow> bool \<times> 'c estado" where
  "verificar_alertas ponto_pedido nome_produto s =
     (case buscar_produto (heap s) (produtos s) nome_produto of
        Some (a, p) \<Rightarrow>
          if quantidade_estoque p \<le> ponto_pedido then
            (True,
             print (aviso @ ''  ALERTA: '' @ aspa @ nome_produto @ aspa
                      @ '' atingiu ponto de pedido!'') s)
          else (False, s)
      | None \<Rightarrow> (False, s))"

text \<open>
  The loop of \<open>relatorio_estoque\<close>: one printed line per entry of the list, in order; it
  stops at the first product whose \<open>__str__\<close> raises.
\<close>

fun imprimir_produtos :: "addr list \<Rightarrow> 'c estado \<Rightarrow> (error + unit) \<times> 'c estado" where
  "imprimir_produtos [] s = (Inr (), s)"
| "imprimir_produtos (a # as) s =
     (case heap s a of
        Some p \<Rightarrow>
          (case Produto_str p of
             Inl e \<Rightarrow> (Inl e, s)
           | Inr txt \<Rightarrow> imprimir_produtos as (print (marcador @ '' '' @ txt) s))
      | None \<Rightarrow> imprimir_produtos as s)"

definition relatorio_estoque :: "'c estado \<Rightarrow> (error + unit) \<times> 'c estado" where
  "relatorio_estoque s =
     (let s1 = print (CHR 0x0A # linha_igual) s;
          s2 = print (''RELAT'' @ [CHR 0xC3, CHR 0x93] @ ''RIO DE ESTOQUE: '' @ nome_estoque s1) s1;
          s3 = print linha_igual s2
      in if produtos s3 = [] then (Inr (), print ''Nenhum produto cadastrado.'' s3)
         else
           (case imprimir_produtos (produtos s3) s3 of
              (Inl e, s4) \<Rightarrow> (Inl e, s4)
            | (Inr u, s4) \<Rightarrow> (Inr (), print (linha_igual @ [CHR 0x0A]) s4)))"

subsection \<open>Sequences of calls\<close>

text \<open>
  A caller's script: constructions of products and calls of the five public methods of
  the ledger, each with the arguments the caller chose. \<open>Adicionar a\<close> passes the object
  at address \<open>a\<close>. A call that raises leaves the state it had reached and the script
  goes on with the next call, as a caller that catches the exception does.
\<close>

datatype 'c chamada =
    Criar string TipoBebida 'c 'c 'c
  | Adicionar addr
  | Entrada string int
  | Saida string int
  | Verificar int string
  | Relatorio

fun executar :: "'c chamada \<Rightarrow> 'c estado \<Rightarrow> 'c estado" where
  "executar (Criar n t cm cp pu) s = snd (Produto_init n t cm cp pu s)"
| "executar (Adicionar a) s = adicionar_produto a s"
| "executar (Entrada n q) s = snd (entrada_estoque n q s)"
| "executar (Saida n q) s = snd (saida_estoque n q s)"
| "executar (Verificar pp n) s = snd (verificar_alertas pp n s)"
| "executar Relatorio s = snd (relatorio_estoque s)"

fun executar_todas :: "'c chamada list \<Rightarrow> 'c estado \<Rightarrow> 'c estado" where
  "executar_todas [] s = s"
| "executar_todas (c # cs) s = executar_todas cs (executar c s)"

text \<open>A call whose received quantity, if it is a stock entry, is not negative.\<close>

fun entrada_nao_negativa :: "'c chamada \<Rightarrow> bool" where
  "entrada_nao_negativa (Entrada n q) = (0 \<le> q)"
| "entrada_nao_negativa _ = True"

subsection \<open>Notions used by the statements\<close>

text \<open>
  Two facts about the states a program can reach. Every object in the store lies below
  the allocation counter, so the constructor never overwrites an object. And every
  entry of the ledger's list denotes an object (\<open>registro_valido\<close>), provided the
  argument of \<open>adicionar_produto\<close> is a constructed \<open>Produto\<close>.
\<close>

definition alocados :: "'c estado \<Rightarrow> bool" where
  "alocados s = (\<forall>a. heap s a \<noteq> None \<longrightarrow> a < prox s)"

fun argumento_construido :: "'c chamada \<Rightarrow> 'c estado \<Rightarrow> bool" where
  "argumento_construido (Adicionar a) s = (heap s a \<noteq> None)"
| "argumento_construido _ s = True"

text \<open>The object at address \<open>a\<close> exists and carries the name \<open>n\<close>.\<close>

definition tem_nome :: "(addr \<rightharpoonup> 'c Produto) \<Rightarrow> string \<Rightarrow> addr \<Rightarrow> bool" where
  "tem_nome h n a = (case h a of Some p \<Rightarrow> nome p = n | None \<Rightarrow> False)"






text \<open>An int that the interpreter converts to text: at most \<open>max_str_digits\<close> digits.\<close>

definition imprimivel :: "int \<Rightarrow> bool" where
  "imprimivel i = (\<bar>i\<bar> < 10 ^ max_str_digits)"


subsection \<open>The scenario of the driver script\<close>

text \<open>
  The state the example at the end of the source reaches before its last two calls:
  two products, 500 and 300 units received, 250 and 180 units of the first issued.
\<close>

definition brahma :: "real Produto" where
  "brahma = \<lparr>nome = ''Brahma Lata 350ml'', tipo = CERVEJA, custo_manutencao = 1 / 2,
             custo_pedido = 150, preco_unitario = 5 / 2, quantidade_estoque = 70\<rparr>"

definition coca_cola :: "real Produto" where
  "coca_cola = \<lparr>nome = ''Coca-Cola 2L'', tipo = REFRIGERANTE, custo_manutencao = 3 / 10,
                custo_pedido = 120, preco_unitario = 5, quantidade_estoque = 300\<rparr>"

definition estoque_principal :: "real estado" where
  "estoque_principal =
     \<lparr>heap = [0 \<mapsto> brahma, 1 \<mapsto> coca_cola], prox = 2,
      nome_estoque = ''Distribuidora Salvador'', produtos = [0, 1], stdout = []\<rparr>"

definition roteiro :: "real chamada list" where
  "roteiro =
     [Criar ''Brahma Lata 350ml'' CERVEJA (1 / 2) 150 (5 / 2),
      Criar ''Coca-Cola 2L'' REFRIGERANTE (3 / 10) 120 5,
      Adicionar 0, Adicionar 1,
      Entrada ''Brahma Lata 350ml'' 500, Entrada ''Coca-Cola 2L'' 300,
      Saida ''Brahma Lata 350ml'' 250, Saida ''Brahma Lata 350ml'' 180]"



definition estoque_enorme :: "real estado" where
  "estoque_enorme =
     \<lparr>heap = [0 \<mapsto> brahma\<lparr>quantidade_estoque := 10 ^ max_str_digits\<rparr>],
      prox = 1, nome_estoque = ''Distribuidora Salvador'', produtos = [0], stdout = []\<rparr>"

definition roteiro_enorme :: "real chamada list" where
  "roteiro_enorme =
     [Criar ''Brahma Lata 350ml'' CERVEJA (1 / 2) 150 (5 / 2), Adicionar 0,
      Entrada ''Brahma Lata 350ml'' (10 ^ max_str_digits - 1), Entrada ''Brahma Lata 350ml'' 1]"

text \<open>A script that receives a negative quantity.\<close>

definition chamadas_negativas :: "real chamada list" where
  "chamadas_negativas =
     [Criar ''Brahma Lata 350ml'' CERVEJA (1 / 2) 150 (5 / 2), Adicionar 0,
      Entrada ''Brahma Lata 350ml'' (- 1)]"

section \<open>Properties\<close>

subsection \<open>Formatting of integers\<close>


lemma digitos_length_le: "n < 10 ^ k \<Longrightarrow> 0 < k \<Longrightarrow> length (digitos n) \<le> k"
proof (induction n arbitrary: k rule: digitos.induct)
  case (1 n)
  show ?case
  proof (cases "n < 10")
    case True
    with "1.prems" show ?thesis by (subst digitos.simps) simp
  next
    case False
    from "1.prems" obtain j where k: "k = Suc j" by (cases k) auto
    from False "1.prems" k have j: "0 < j" by (cases j) auto
    from "1.prems" k have "n div 10 < 10 ^ j"
      by (simp add: less_mult_imp_div_less mult.commute)
    from "1.IH" [OF False this j] False k show ?thesis
      by (subst digitos.simps) simp
  qed
qed


lemma max_str_digits_pos: "0 < max_str_digits"
  by (simp add: max_str_digits_def)

lemma nat_abs_less: "(nat \<bar>i\<bar> < 10 ^ k) = (\<bar>i\<bar> < 10 ^ k)"
proof -
  have "(nat \<bar>i\<bar> < 10 ^ k) = (int (nat \<bar>i\<bar>) < int (10 ^ k))" by (simp only: of_nat_less_iff)
  also have "\<dots> = (\<bar>i\<bar> < 10 ^ k)" by simp
  finally show ?thesis .
qed

lemma str_int_imprimivel:
  "imprimivel i \<Longrightarrow> str_int i = Inr (if i < 0 then ''-'' @ digitos (nat (- i)) else digitos (nat i))"
  using digitos_length_le [of "nat \<bar>i\<bar>" max_str_digits] max_str_digits_pos
  by (simp add: str_int_def imprimivel_def nat_abs_less)


lemma imprimivel_pequeno: "\<bar>i\<bar> < 100000 \<Longrightarrow> imprimivel i"
proof -
  assume a: "\<bar>i\<bar> < 100000"
  have "(10::int) ^ 5 \<le> 10 ^ max_str_digits"
    by (rule power_increasing) (simp_all add: max_str_digits_def)
  with a show ?thesis by (simp add: imprimivel_def)
qed






subsection \<open>The lookup\<close>

lemma buscar_produto_Some:
  "buscar_produto h as n = Some (a, p) \<Longrightarrow> a \<in> set as \<and> h a = Some p \<and> nome p = n"
  by (induction as) (auto split: option.splits if_splits)

lemma buscar_produto_None:
  "(buscar_produto h as n = None) = (\<forall>a\<in>set as. \<forall>p. h a = Some p \<longrightarrow> nome p \<noteq> n)"
  by (induction as) (auto split: option.splits)

lemma buscar_produto_find:
  "map_option fst (buscar_produto h as n) = find (tem_nome h n) as"
  by (induction as) (auto simp: tem_nome_def split: option.splits)


text \<open>Changing the stock of the object found does not change what the lookup finds.\<close>

lemma buscar_produto_upd:
  "buscar_produto h as n = Some (a, p) \<Longrightarrow>
   buscar_produto (h(a \<mapsto> p\<lparr>quantidade_estoque := x\<rparr>)) as n
     = Some (a, p\<lparr>quantidade_estoque := x\<rparr>)"
  by (induction as) (auto split: option.splits if_splits)

subsection \<open>What printing and the report loop leave alone\<close>


lemma heap_print [simp]: "heap (print txt s) = heap s"
  by (simp add: print_def)

lemma produtos_print [simp]: "produtos (print txt s) = produtos s"
  by (simp add: print_def)

lemma prox_print [simp]: "prox (print txt s) = prox s"
  by (simp add: print_def)

lemma nome_estoque_print [simp]: "nome_estoque (print txt s) = nome_estoque s"
  by (simp add: print_def)

lemma stdout_print [simp]: "stdout (print txt s) = stdout s @ [txt]"
  by (simp add: print_def)

lemma print_sem_stdout [simp]: "(print txt s)\<lparr>stdout := out\<rparr> = s\<lparr>stdout := out\<rparr>"
  by (simp add: print_def)

lemma imprimir_produtos_sem_stdout:
  "(snd (imprimir_produtos as s))\<lparr>stdout := out\<rparr> = s\<lparr>stdout := out\<rparr>"
  by (induction as arbitrary: s) (auto split: option.splits sum.splits)

lemma relatorio_estoque_sem_stdout:
  "(snd (relatorio_estoque s))\<lparr>stdout := out\<rparr> = s\<lparr>stdout := out\<rparr>"
proof -
  let ?s3 = "print linha_igual (print (''RELAT'' @ [CHR 0xC3, CHR 0x93] @ ''RIO DE ESTOQUE: ''
               @ nome_estoque s) (print (CHR 0x0A # linha_igual) s))"
  have "(snd (imprimir_produtos (produtos s) ?s3))\<lparr>stdout := out\<rparr> = s\<lparr>stdout := out\<rparr>"
    by (simp add: imprimir_produtos_sem_stdout)
  then show ?thesis
    by (auto simp: relatorio_estoque_def Let_def split: prod.splits sum.splits)
qed

lemma heap_relatorio_estoque: "heap (snd (relatorio_estoque s)) = heap s"
  using arg_cong [OF relatorio_estoque_sem_stdout [of "stdout s" s], of heap] by simp

lemma produtos_relatorio_estoque: "produtos (snd (relatorio_estoque s)) = produtos s"
  using arg_cong [OF relatorio_estoque_sem_stdout [of "stdout s" s], of produtos] by simp

lemma prox_relatorio_estoque: "prox (snd (relatorio_estoque s)) = prox s"
  using arg_cong [OF relatorio_estoque_sem_stdout [of "stdout s" s], of prox] by simp

subsection \<open>The scenarios\<close>

lemma buscar_estoque_principal:
  "buscar_produto (heap estoque_principal) (produtos estoque_principal) ''Brahma Lata 350ml''
     = Some (0, brahma)"
  by (simp add: estoque_principal_def brahma_def)

lemma roteiro_estoque_principal:
  "(executar_todas roteiro (Estoque_init ''Distribuidora Salvador''))\<lparr>stdout := []\<rparr>
     = estoque_principal"
  by (simp add: roteiro_def Estoque_init_def Produto_init_def adicionar_produto_def
      entrada_estoque_def saida_estoque_def print_def estoque_principal_def brahma_def
      coca_cola_def fun_upd_twist Let_def str_int_imprimivel imprimivel_pequeno)

lemma imprimivel_parcela: "imprimivel (10 ^ max_str_digits - 1)"
proof -
  have "(1::int) \<le> 10 ^ max_str_digits" by simp
  then have "\<bar>(10::int) ^ max_str_digits - 1\<bar> = 10 ^ max_str_digits - 1" by simp
  then show ?thesis by (simp add: imprimivel_def)
qed


lemma roteiro_enorme_estoque_enorme:
  "(executar_todas roteiro_enorme (Estoque_init ''Distribuidora Salvador''))\<lparr>stdout := []\<rparr>
     = estoque_enorme"
  by (simp add: roteiro_enorme_def Estoque_init_def Produto_init_def adicionar_produto_def
      entrada_estoque_def print_def estoque_enorme_def brahma_def Let_def
      str_int_imprimivel imprimivel_parcela imprimivel_pequeno)

subsection \<open>Reachable states\<close>

lemma registro_valido_Estoque_init: "registro_valido (Estoque_init nm)"
  by (simp add: registro_valido_def Estoque_init_def)

lemma alocados_Estoque_init: "alocados (Estoque_init nm)"
  by (simp add: alocados_def Estoque_init_def)

lemma Produto_init_novo:
  "alocados s \<Longrightarrow> heap s (fst (Produto_init n t cm cp pu s)) = None"
  by (auto simp: alocados_def Produto_init_def)

lemma alocados_executar: "alocados s \<Longrightarrow> alocados (executar c s)"
proof (cases c)
  case (Criar n t cm cp pu)
  moreover assume "alocados s"
  ultimately show ?thesis
    by (auto simp: alocados_def Produto_init_def less_Suc_eq)
next
  case (Adicionar a)
  moreover assume "alocados s"
  ultimately show ?thesis
    by (auto simp: alocados_def adicionar_produto_def Let_def split: option.splits)
next
  case (Entrada n q)
  moreover assume "alocados s"
  ultimately show ?thesis
    by (auto simp: alocados_def entrada_estoque_def Let_def
        split: option.splits sum.splits dest!: buscar_produto_Some)
next
  case (Saida n q)
  moreover assume "alocados s"
  ultimately show ?thesis
    by (auto simp: alocados_def saida_estoque_def Let_def
        split: option.splits sum.splits if_splits dest!: buscar_produto_Some)
next
  case (Verificar pp n)
  moreover assume "alocados s"
  ultimately show ?thesis
    by (auto simp: alocados_def verificar_alertas_def split: option.splits if_splits)
next
  case Relatorio
  moreover assume "alocados s"
  ultimately show ?thesis
    by (simp add: alocados_def heap_relatorio_estoque prox_relatorio_estoque)
qed

lemma registro_valido_executar:
  assumes "registro_valido s" and "argumento_construido c s"
  shows "registro_valido (executar c s)"
proof (cases c)
  case (Criar n t cm cp pu)
  with assms show ?thesis
    by (auto simp: registro_valido_def Produto_init_def list_all_iff)
next
  case (Adicionar a)
  with assms show ?thesis
    by (auto simp: registro_valido_def adicionar_produto_def Let_def list_all_iff
        split: option.splits)
next
  case (Entrada n q)
  with assms show ?thesis
    by (auto simp: registro_valido_def entrada_estoque_def list_all_iff Let_def
        split: option.splits sum.splits)
next
  case (Saida n q)
  with assms show ?thesis
    by (auto simp: registro_valido_def saida_estoque_def list_all_iff Let_def
        split: option.splits sum.splits if_splits)
next
  case (Verificar pp n)
  with assms show ?thesis
    by (auto simp: registro_valido_def verificar_alertas_def list_all_iff
        split: option.splits if_splits)
next
  case Relatorio
  with assms show ?thesis
    by (simp add: registro_valido_def heap_relatorio_estoque produtos_relatorio_estoque)
qed

lemma registro_valido_map:
  "registro_valido s \<Longrightarrow> \<exists>ps. map (heap s) (produtos s) = map Some ps"
proof -
  assume "registro_valido s"
  then have "\<forall>a\<in>set (produtos s). heap s a = Some (the (heap s a))"
    by (auto simp: registro_valido_def list_all_iff)
  then have "map (heap s) (produtos s) = map Some (map (\<lambda>a. the (heap s a)) (produtos s))"
    by (simp add: comp_def)
  then show ?thesis ..
qed

subsection \<open>Stock never negative\<close>

text \<open>
  Claim C1, as stated, for arbitrary arguments: it fails. \<open>entrada_estoque\<close> adds the
  quantity it is given without looking at its sign, so a product constructed with stock
  0, registered, and then given the quantity \<open>-1\<close> has stock \<open>-1\<close>.
\<close>

theorem estoque_negativo_counterexample:
  "produtos (executar_todas chamadas_negativas (Estoque_init ''Distribuidora Salvador'')) = [0]
   \<and> map_option quantidade_estoque
       (heap (executar_todas chamadas_negativas (Estoque_init ''Distribuidora Salvador'')) 0)
     = Some (- 1)"
  by (simp add: chamadas_negativas_def Estoque_init_def Produto_init_def adicionar_produto_def
      entrada_estoque_def print_def Let_def str_int_imprimivel imprimivel_pequeno)

text \<open>Every call preserves the invariant, provided a received quantity is not negative.\<close>

lemma executar_nao_negativo:
  assumes "\<forall>a p. heap s a = Some p \<longrightarrow> 0 \<le> quantidade_estoque p"
    and "entrada_nao_negativa c"
  shows "\<forall>a p. heap (executar c s) a = Some p \<longrightarrow> 0 \<le> quantidade_estoque p"
proof (cases c)
  case (Criar n t cm cp pu)
  with assms show ?thesis by (auto simp: Produto_init_def)
next
  case (Adicionar a)
  with assms show ?thesis by (auto simp: adicionar_produto_def Let_def split: option.splits)
next
  case (Entrada n q)
  with assms show ?thesis
    by (auto simp: entrada_estoque_def Let_def split: option.splits sum.splits
        dest!: buscar_produto_Some)
next
  case (Saida n q)
  with assms show ?thesis
    by (auto simp: saida_estoque_def Let_def split: option.splits sum.splits if_splits
        dest!: buscar_produto_Some)
next
  case (Verificar pp n)
  with assms show ?thesis
    by (auto simp: verificar_alertas_def split: option.splits if_splits)
next
  case Relatorio
  with assms show ?thesis by (simp add: heap_relatorio_estoque)
qed

lemma executar_todas_nao_negativo:
  "\<forall>a p. heap s a = Some p \<longrightarrow> 0 \<le> quantidade_estoque p \<Longrightarrow>
   list_all entrada_nao_negativa cs \<Longrightarrow>
   \<forall>a p. heap (executar_todas cs s) a = Some p \<longrightarrow> 0 \<le> quantidade_estoque p"
proof (induction cs arbitrary: s)
  case Nil
  then show ?case by simp
next
  case (Cons c cs)
  from Cons.prems have "\<forall>a p. heap (executar c s) a = Some p \<longrightarrow> 0 \<le> quantidade_estoque p"
    using executar_nao_negativo [of s c] by simp
  with Cons.IH [of "executar c s"] Cons.prems show ?case by simp
qed

lemma roteiro_heap:
  "heap (executar_todas roteiro (Estoque_init ''Distribuidora Salvador''))
     = heap estoque_principal"
  using arg_cong [OF roteiro_estoque_principal, of heap] by simp

lemma roteiro_produtos:
  "produtos (executar_todas roteiro (Estoque_init ''Distribuidora Salvador''))
     = produtos estoque_principal"
  using arg_cong [OF roteiro_estoque_principal, of produtos] by simp

text \<open>
  Claim C1, amended: the constructor sets the stock of the new object to zero, and after
  any sequence of constructions and calls of \<open>adicionar_produto\<close>, \<open>entrada_estoque\<close>,
  \<open>saida_estoque\<close>, \<open>verificar_alertas\<close> and \<open>relatorio_estoque\<close> on a new ledger, with
  arbitrary arguments except that no quantity passed to \<open>entrada_estoque\<close> is negative,
  the stock of every registered product is at least zero.
\<close>

theorem estoque_nunca_negativo:
  assumes "list_all entrada_nao_negativa cs"
  shows "heap (snd (Produto_init n t cm cp pu s)) (fst (Produto_init n t cm cp pu s))
           = Some \<lparr>nome = n, tipo = t, custo_manutencao = cm, custo_pedido = cp,
                   preco_unitario = pu, quantidade_estoque = 0\<rparr>
       \<and> (\<forall>a\<in>set (produtos (executar_todas cs (Estoque_init nm))). \<forall>p.
            heap (executar_todas cs (Estoque_init nm)) a = Some p \<longrightarrow> 0 \<le> quantidade_estoque p)"
proof -
  have "\<forall>a p. heap (Estoque_init nm :: 'a estado) a = Some p \<longrightarrow> 0 \<le> quantidade_estoque p"
    by (simp add: Estoque_init_def)
  from executar_todas_nao_negativo [OF this assms] show ?thesis
    by (simp add: Produto_init_def)
qed

theorem estoque_nunca_negativo_witness:
  "list_all entrada_nao_negativa roteiro
   \<and> map_option quantidade_estoque
         (heap (snd (Produto_init ''Brahma Lata 350ml'' CERVEJA (1 / 2) 150 (5 / 2)
                       (Estoque_init ''Distribuidora Salvador'' :: real estado))) 0)
       = Some 0
   \<and> list_all (\<lambda>a. case heap (executar_todas roteiro (Estoque_init ''Distribuidora Salvador'')) a of
                     Some p \<Rightarrow> 0 \<le> quantidade_estoque p | None \<Rightarrow> False)
       (produtos (executar_todas roteiro (Estoque_init ''Distribuidora Salvador'')))"
proof -
  have h: "list_all entrada_nao_negativa roteiro"
    by (simp add: roteiro_def)
  have z: "fst (Produto_init ''Brahma Lata 350ml'' CERVEJA (1 / 2) 150 (5 / 2)
                  (Estoque_init ''Distribuidora Salvador'' :: real estado)) = 0"
    by (simp add: Produto_init_def Estoque_init_def)
  show ?thesis
    using h estoque_nunca_negativo [OF h, of "''Brahma Lata 350ml''" CERVEJA "1 / 2 :: real" 150
        "5 / 2" "Estoque_init ''Distribuidora Salvador''" "''Distribuidora Salvador''"]
    by (simp add: z roteiro_heap roteiro_produtos estoque_principal_def brahma_def coca_cola_def)
qed

subsection \<open>Issuing stock\<close>







subsection \<open>Unknown names\<close>

text \<open>
  Claim C6: when no registered product carries the name, \<open>entrada_estoque\<close> and
  \<open>saida_estoque\<close> both raise the \<open>ValueError\<close> ``Produto '...' nao encontrado'', for every
  quantity, and leave the state as it was.
\<close>

theorem nao_encontrado:
  assumes "\<forall>a\<in>set (produtos s). \<forall>p. heap s a = Some p \<longrightarrow> nome p \<noteq> n"
  shows "entrada_estoque n q s = (Inl (ValueError (msg_nao_encontrado n)), s)
       \<and> saida_estoque n q s = (Inl (ValueError (msg_nao_encontrado n)), s)"
proof -
  from assms have "buscar_produto (heap s) (produtos s) n = None"
    by (simp add: buscar_produto_None)
  then show ?thesis
    by (simp add: entrada_estoque_def saida_estoque_def)
qed

theorem nao_encontrado_witness:
  "entrada_estoque ''Guaran'' 10 estoque_principal
     = (Inl (ValueError (msg_nao_encontrado ''Guaran'')), estoque_principal)
   \<and> saida_estoque ''Guaran'' 10 estoque_principal
     = (Inl (ValueError (msg_nao_encontrado ''Guaran'')), estoque_principal)"
proof -
  have h: "\<forall>a\<in>set (produtos estoque_principal). \<forall>p.
             heap estoque_principal a = Some p \<longrightarrow> nome p \<noteq> ''Guaran''"
    by (simp add: estoque_principal_def brahma_def coca_cola_def)
  show ?thesis
    by (rule nao_encontrado [OF h])
qed

subsection \<open>Reorder alert\<close>




subsection \<open>Issue followed by receipt\<close>

text \<open>
  Claim C8: when \<open>saida_estoque\<close> of a quantity returns normally, \<open>entrada_estoque\<close> of the
  same quantity under the same name returns normally too, and afterwards the store is
  the store before the two calls: the stock of every product, registered under that
  name or any other, has its former value.
\<close>

theorem saida_entrada_restaura:
  assumes "fst (saida_estoque n q s) = Inr ()"
  shows "fst (entrada_estoque n q (snd (saida_estoque n q s))) = Inr ()
       \<and> heap (snd (entrada_estoque n q (snd (saida_estoque n q s)))) = heap s"
proof -
  from assms obtain a p d where b: "buscar_produto (heap s) (produtos s) n = Some (a, p)"
    and le: "q \<le> quantidade_estoque p" and d: "str_int q = Inr d"
    by (auto simp: saida_estoque_def Let_def split: option.splits if_splits sum.splits)
  let ?p1 = "p\<lparr>quantidade_estoque := quantidade_estoque p - q\<rparr>"
  let ?s1 = "snd (saida_estoque n q s)"
  have h1: "heap ?s1 = (heap s)(a \<mapsto> ?p1)" and l1: "produtos ?s1 = produtos s"
    using b le d by (simp_all add: saida_estoque_def Let_def)
  have b1: "buscar_produto (heap ?s1) (produtos ?s1) n = Some (a, ?p1)"
    unfolding h1 l1 using b by (rule buscar_produto_upd)
  have pa: "heap s a = Some p"
    using b by (simp add: buscar_produto_Some)
  have "heap (snd (entrada_estoque n q ?s1)) = (heap s)(a \<mapsto> p)"
    using b1 h1 d by (simp add: entrada_estoque_def Let_def)
  moreover have "(heap s)(a \<mapsto> p) = heap s"
    using pa by (rule map_upd_triv)
  moreover have "fst (entrada_estoque n q ?s1) = Inr ()"
    using b1 d by (simp add: entrada_estoque_def Let_def)
  ultimately show ?thesis by simp
qed

theorem saida_entrada_restaura_witness:
  "fst (saida_estoque ''Brahma Lata 350ml'' 30 estoque_principal) = Inr ()
   \<and> fst (entrada_estoque ''Brahma Lata 350ml'' 30
            (snd (saida_estoque ''Brahma Lata 350ml'' 30 estoque_principal))) = Inr ()
   \<and> heap (snd (entrada_estoque ''Brahma Lata 350ml'' 30
            (snd (saida_estoque ''Brahma Lata 350ml'' 30 estoque_principal))))
       = heap estoque_principal"
proof -
  have h: "fst (saida_estoque ''Brahma Lata 350ml'' 30 estoque_principal) = Inr ()"
    using buscar_estoque_principal
    by (simp add: saida_estoque_def brahma_def Let_def str_int_imprimivel imprimivel_pequeno)
  show ?thesis
    using h saida_entrada_restaura [OF h] by simp
qed

subsection \<open>The report\<close>







subsection \<open>What the operations leave unchanged\<close>

text \<open>
  Claim C10: \<open>entrada_estoque\<close> and \<open>saida_estoque\<close>, whether they return or raise, leave
  the ledger's name, the list of products (its length and order) and the allocation
  counter as they were; every object \<open>b\<close> other than the first entry of the list whose
  object carries the given name keeps all its fields; and every object, the targeted
  one included, differs from its former self at most in \<open>quantidade_estoque\<close>.
  \<open>verificar_alertas\<close> and \<open>relatorio_estoque\<close>, whether it returns or raises, change
  nothing but the printed output.
\<close>

theorem operacoes_quadro:
  "nome_estoque (snd (entrada_estoque n q s)) = nome_estoque s
 \<and> produtos (snd (entrada_estoque n q s)) = produtos s
 \<and> prox (snd (entrada_estoque n q s)) = prox s
 \<and> (find (tem_nome (heap s) n) (produtos s) \<noteq> Some b \<longrightarrow>
       heap (snd (entrada_estoque n q s)) b = heap s b)
 \<and> (heap s b = Some p \<longrightarrow>
       (\<exists>x. heap (snd (entrada_estoque n q s)) b = Some (p\<lparr>quantidade_estoque := x\<rparr>)))
 \<and> nome_estoque (snd (saida_estoque n q s)) = nome_estoque s
 \<and> produtos (snd (saida_estoque n q s)) = produtos s
 \<and> prox (snd (saida_estoque n q s)) = prox s
 \<and> (find (tem_nome (heap s) n) (produtos s) \<noteq> Some b \<longrightarrow>
       heap (snd (saida_estoque n q s)) b = heap s b)
 \<and> (heap s b = Some p \<longrightarrow>
       (\<exists>x. heap (snd (saida_estoque n q s)) b = Some (p\<lparr>quantidade_estoque := x\<rparr>)))
 \<and> (snd (verificar_alertas pp n s))\<lparr>stdout := stdout s\<rparr> = s
 \<and> (snd (relatorio_estoque s))\<lparr>stdout := stdout s\<rparr> = s"
proof -
  have f: "find (tem_nome (heap s) n) (produtos s)
             = map_option fst (buscar_produto (heap s) (produtos s) n)"
    by (simp add: buscar_produto_find)
  have triv: "\<And>r :: 'a Produto. \<exists>x. r = r\<lparr>quantidade_estoque := x\<rparr>"
  proof -
    fix r :: "'a Produto"
    have "r = r\<lparr>quantidade_estoque := quantidade_estoque r\<rparr>" by simp
    then show "\<exists>x. r = r\<lparr>quantidade_estoque := x\<rparr>" ..
  qed
  have e1: "nome_estoque (snd (entrada_estoque n q s)) = nome_estoque s"
    and e2: "produtos (snd (entrada_estoque n q s)) = produtos s"
    and e3: "prox (snd (entrada_estoque n q s)) = prox s"
    by (simp_all add: entrada_estoque_def print_def Let_def split: option.splits sum.splits)
  have e4: "find (tem_nome (heap s) n) (produtos s) \<noteq> Some b \<longrightarrow>
       heap (snd (entrada_estoque n q s)) b = heap s b"
    unfolding f by (auto simp: entrada_estoque_def Let_def split: option.splits sum.splits)
  have e5: "heap s b = Some p \<longrightarrow>
       (\<exists>x. heap (snd (entrada_estoque n q s)) b = Some (p\<lparr>quantidade_estoque := x\<rparr>))"
    using triv [of p]
    by (auto simp: entrada_estoque_def Let_def split: option.splits sum.splits
        dest!: buscar_produto_Some)
  have s1: "nome_estoque (snd (saida_estoque n q s)) = nome_estoque s"
    and s2: "produtos (snd (saida_estoque n q s)) = produtos s"
    and s3: "prox (snd (saida_estoque n q s)) = prox s"
    by (simp_all add: saida_estoque_def print_def Let_def split: option.splits sum.splits)
  have s4: "find (tem_nome (heap s) n) (produtos s) \<noteq> Some b \<longrightarrow>
       heap (snd (saida_estoque n q s)) b = heap s b"
    unfolding f by (auto simp: saida_estoque_def Let_def split: option.splits sum.splits)
  have s5: "heap s b = Some p \<longrightarrow>
       (\<exists>x. heap (snd (saida_estoque n q s)) b = Some (p\<lparr>quantidade_estoque := x\<rparr>))"
    using triv [of p]
    by (auto simp: saida_estoque_def Let_def split: option.splits sum.splits
        dest!: buscar_produto_Some)
  have v: "(snd (verificar_alertas pp n s))\<lparr>stdout := stdout s\<rparr> = s"
    by (simp add: verificar_alertas_def split: option.splits)
  have r: "(snd (relatorio_estoque s))\<lparr>stdout := stdout s\<rparr> = s"
    by (simp add: relatorio_estoque_sem_stdout)
  from e1 e2 e3 e4 e5 s1 s2 s3 s4 s5 v r show ?thesis by blast
qed

theorem operacoes_quadro_witness:
  "find (tem_nome (heap estoque_principal) ''Brahma Lata 350ml'') (produtos estoque_principal)
     = Some 0
   \<and> heap (snd (entrada_estoque ''Brahma Lata 350ml'' 30 estoque_principal)) 1 = Some coca_cola
   \<and> heap (snd (saida_estoque ''Brahma Lata 350ml'' 30 estoque_principal)) 1 = Some coca_cola
   \<and> produtos (snd (saida_estoque ''Brahma Lata 350ml'' 30 estoque_principal)) = [0, 1]
   \<and> (snd (verificar_alertas 320 ''Brahma Lata 350ml'' estoque_principal))\<lparr>stdout := []\<rparr>
       = estoque_principal
   \<and> (snd (relatorio_estoque estoque_principal))\<lparr>stdout := []\<rparr> = estoque_principal"
proof -
  have f: "find (tem_nome (heap estoque_principal) ''Brahma Lata 350ml'')
             (produtos estoque_principal) = Some 0"
    by (simp add: estoque_principal_def tem_nome_def brahma_def)
  have g: "heap estoque_principal 1 = Some coca_cola" "produtos estoque_principal = [0, 1]"
    "stdout estoque_principal = []"
    by (simp_all add: estoque_principal_def)
  note quadro =
    operacoes_quadro [of "''Brahma Lata 350ml''" 30 estoque_principal 1 coca_cola 320]
  have e: "heap (snd (entrada_estoque ''Brahma Lata 350ml'' 30 estoque_principal)) 1
             = heap estoque_principal 1"
    using quadro f by simp
  have s: "heap (snd (saida_estoque ''Brahma Lata 350ml'' 30 estoque_principal)) 1
             = heap estoque_principal 1"
    using quadro f by simp
  have l: "produtos (snd (saida_estoque ''Brahma Lata 350ml'' 30 estoque_principal))
             = produtos estoque_principal"
    using quadro by simp
  have v: "(snd (verificar_alertas 320 ''Brahma Lata 350ml'' estoque_principal))
             \<lparr>stdout := stdout estoque_principal\<rparr> = estoque_principal"
    using quadro by simp
  have r: "(snd (relatorio_estoque estoque_principal))\<lparr>stdout := stdout estoque_principal\<rparr>
             = estoque_principal"
    using quadro by simp
  from f e s l v r show ?thesis
    by (simp only: g simp_thms)
qed

end
